theory Spec2Isabelle
  imports Main "HOL-Library.Monad_Syntax"
begin

section \<open>Values of the JavaScript program\<close>

text \<open>
  The handlers of \<^verbatim>\<open>stripe_server.js\<close> work on values that come out of
  \<^verbatim>\<open>JSON.parse\<close> (request bodies, webhook events), plus \<^verbatim>\<open>undefined\<close>
  for a property that is not there. A number is represented by the text that
  \<^verbatim>\<open>Number.prototype.toString\<close> renders for it, which identifies it up to the sign of
  zero. An object is the list of its own properties; where a name is listed twice the
  first binding is the property's value.
\<close>

datatype jsval =
    JUndefined
  | JNull
  | JBool bool
  | JNum string
  | JStr string
  | JArr "jsval list"
  | JObj "(string \<times> jsval) list"

text \<open>Truthiness, as the conditional operator and \<^verbatim>\<open>!\<close> see it.\<close>

fun truthy :: "jsval \<Rightarrow> bool" where
  "truthy JUndefined = False"
| "truthy JNull = False"
| "truthy (JBool b) = b"
| "truthy (JNum r) = (r \<noteq> ''0'' \<and> r \<noteq> ''NaN'')"
| "truthy (JStr s) = (s \<noteq> [])"
| "truthy (JArr xs) = True"
| "truthy (JObj ps) = True"

text \<open>
  Reading a property \<^verbatim>\<open>v.name\<close>. On \<^verbatim>\<open>undefined\<close> and \<^verbatim>\<open>null\<close> the read throws a
  TypeError, which is the result \<open>None\<close>. The handlers read only the properties
  \<^verbatim>\<open>type\<close>, \<^verbatim>\<open>data\<close>, \<^verbatim>\<open>object\<close>, \<^verbatim>\<open>subscription\<close>, \<^verbatim>\<open>metadata\<close>, \<^verbatim>\<open>orgId\<close>,
  \<^verbatim>\<open>plan\<close>, \<^verbatim>\<open>status\<close>, \<^verbatim>\<open>id\<close> and \<^verbatim>\<open>url\<close>; no built-in prototype defines one of
  them, so a read that misses the own properties yields \<^verbatim>\<open>undefined\<close>, and so does
  such a read on a string, a number, a boolean or an array.
\<close>

fun get_prop :: "jsval \<Rightarrow> string \<Rightarrow> jsval option" where
  "get_prop JUndefined name = None"
| "get_prop JNull name = None"
| "get_prop (JObj ps) name =
     Some (case map_of ps name of Some v \<Rightarrow> v | None \<Rightarrow> JUndefined)"
| "get_prop v name = Some JUndefined"

fun join :: "string \<Rightarrow> string list \<Rightarrow> string" where
  "join sep [] = []"
| "join sep [s] = s"
| "join sep (s # t # ss) = s @ sep @ join sep (t # ss)"

text \<open>
  ToString, which a template literal applies to each substitution and a computed
  member access \<^verbatim>\<open>o[k]\<close> applies to its key. An array is rendered by
  \<^verbatim>\<open>Array.prototype.join\<close>, where \<^verbatim>\<open>null\<close> and \<^verbatim>\<open>undefined\<close> elements are empty. A
  plain object is rendered by \<^verbatim>\<open>Object.prototype.toString\<close>, unless it has an own
  property \<^verbatim>\<open>toString\<close>: a parsed value is never callable, the inherited \<^verbatim>\<open>valueOf\<close>
  returns the object itself, and the conversion throws a TypeError (\<open>None\<close>).
\<close>

fun to_string :: "jsval \<Rightarrow> string option" where
  "to_string JUndefined = Some ''undefined''"
| "to_string JNull = Some ''null''"
| "to_string (JBool b) = Some (if b then ''true'' else ''false'')"
| "to_string (JNum r) = Some r"
| "to_string (JStr s) = Some s"
| "to_string (JArr xs) =
     map_option (join '','')
       (those (map (\<lambda>x. case x of JUndefined \<Rightarrow> Some [] | JNull \<Rightarrow> Some []
                              | _ \<Rightarrow> to_string x) xs))"
| "to_string (JObj ps) =
     (case map_of ps ''toString'' of None \<Rightarrow> Some ''[object Object]'' | Some m \<Rightarrow> None)"

section \<open>The subscriptions object\<close>

text \<open>
  Every value the webhook handler stores is an object literal with the two properties
  \<^verbatim>\<open>plan\<close> and \<^verbatim>\<open>status\<close>.
\<close>

record subscription_record =
  plan :: jsval
  status :: jsval

text \<open>
  \<^verbatim>\<open>const subscriptions = {}\<close> is a plain object used as a mapping from organisation
  to record: its own properties, and its prototype. The prototype is \<^verbatim>\<open>Object.prototype\<close>
  (\<open>None\<close>) until an assignment to the key \<^verbatim>\<open>__proto__\<close> replaces it by the record
  assigned, whose own prototype is \<^verbatim>\<open>Object.prototype\<close> again.
\<close>

record store =
  props :: "string \<rightharpoonup> subscription_record"
  proto :: "subscription_record option"

definition subscriptions :: store where
  "subscriptions = \<lparr>props = Map.empty, proto = None\<rparr>"

definition object_prototype_names :: "string list" where
  "object_prototype_names =
     [''constructor'', ''__defineGetter__'', ''__defineSetter__'', ''hasOwnProperty'',
      ''__lookupGetter__'', ''__lookupSetter__'', ''isPrototypeOf'',
      ''propertyIsEnumerable'', ''toString'', ''valueOf'', ''__proto__'',
      ''toLocaleString'']"

text \<open>
  The assignment \<^verbatim>\<open>subscriptions[k] = r\<close>. An own property is written or created, except
  for the key \<^verbatim>\<open>__proto__\<close>: unless it is an own property already, the assignment reaches
  the setter that \<^verbatim>\<open>Object.prototype\<close> defines for it, which makes \<open>r\<close> the prototype.
\<close>

definition set_prop :: "store \<Rightarrow> string \<Rightarrow> subscription_record \<Rightarrow> store" where
  "set_prop s k r =
     (if k = ''__proto__'' \<and> props s k = None then s\<lparr>proto := Some r\<rparr>
      else s\<lparr>props := (props s)(k \<mapsto> r)\<rparr>)"

text \<open>
  The read \<^verbatim>\<open>subscriptions[k]\<close>: an own property, else a property of the prototype
  chain. A record that is the prototype answers \<^verbatim>\<open>plan\<close> and \<^verbatim>\<open>status\<close> with its
  values, and the getter that \<^verbatim>\<open>Object.prototype\<close> defines for \<^verbatim>\<open>__proto__\<close> answers
  with that record. Otherwise the names of \<^verbatim>\<open>Object.prototype\<close> are answered by its
  built-in values (its functions, and for \<^verbatim>\<open>__proto__\<close> the object itself), each
  identified by its name; every other name reads as \<^verbatim>\<open>undefined\<close>.
\<close>

datatype lookup =
    Undefined
  | Record subscription_record
  | Inherited_value jsval
  | Inherited_builtin string

definition object_prototype_get :: "string \<Rightarrow> lookup" where
  "object_prototype_get k =
     (if k \<in> set object_prototype_names then Inherited_builtin k else Undefined)"

definition store_get :: "store \<Rightarrow> string \<Rightarrow> lookup" where
  "store_get s k =
     (case props s k of
        Some r \<Rightarrow> Record r
      | None \<Rightarrow>
          (case proto s of
             None \<Rightarrow> object_prototype_get k
           | Some p \<Rightarrow>
               if k = ''plan'' then Inherited_value (plan p)
               else if k = ''status'' then Inherited_value (status p)
               else if k = ''__proto__'' then Record p
               else object_prototype_get k))"

text \<open>
  The names that the subscriptions object inherits: those of \<^verbatim>\<open>Object.prototype\<close>, and
  \<^verbatim>\<open>plan\<close> and \<^verbatim>\<open>status\<close> once a record is its prototype.
\<close>

definition inherited_names :: "store \<Rightarrow> string list" where
  "inherited_names s =
     (case proto s of
        None \<Rightarrow> object_prototype_names
      | Some p \<Rightarrow> [''plan'', ''status''] @ object_prototype_names)"

text \<open>The operator \<^verbatim>\<open>k in subscriptions\<close>.\<close>

definition has_property :: "store \<Rightarrow> string \<Rightarrow> bool" where
  "has_property s k =
     (case props s k of
        Some r \<Rightarrow> True
      | None \<Rightarrow> k \<in> set (inherited_names s))"

section \<open>POST /api/billing/webhooks\<close>

text \<open>
  What a handler leaves behind: the subscriptions object, the lines written to the
  console, and the reply. \<open>Uncaught\<close> stands for an exception that leaves the handler,
  so that the handler itself sends no reply.
\<close>

datatype response =
    Json nat jsval
  | Send nat string
  | Uncaught

record outcome =
  subs :: store
  logged :: "string list"
  reply :: response

text \<open>
  The cases of the \<^verbatim>\<open>switch\<close> on the event's type, each with the values its reads
  produce: \<^verbatim>\<open>orgId\<close> and \<^verbatim>\<open>plan\<close>; \<^verbatim>\<open>orgId\<close>, \<^verbatim>\<open>plan\<close> and \<^verbatim>\<open>status\<close>; \<^verbatim>\<open>orgId\<close>;
  and, for the default case, the type.
\<close>

datatype billing_event =
    CheckoutCompleted jsval jsval
  | SubscriptionUpdated jsval jsval jsval
  | SubscriptionDeleted jsval
  | Unhandled jsval

text \<open>
  The reads of the handler, in the order of the source (lines 129 to 134, 141 to 144
  and 149 to 150). \<open>None\<close> is a TypeError thrown by a read, before anything is written.
\<close>

definition decode_event :: "jsval \<Rightarrow> billing_event option" where
  "decode_event event = do {
     type \<leftarrow> get_prop event ''type'';
     data \<leftarrow> get_prop event ''data'';
     if type = JStr ''checkout.session.completed'' then do {
       session \<leftarrow> get_prop data ''object'';
       subscription \<leftarrow> get_prop session ''subscription'';
       source \<leftarrow> (if truthy subscription then get_prop session ''metadata''
                  else Some session);
       orgId \<leftarrow> get_prop source ''orgId'';
       plan \<leftarrow> get_prop source ''plan'';
       Some (CheckoutCompleted orgId plan)
     } else if type = JStr ''customer.subscription.updated'' then do {
       subscription \<leftarrow> get_prop data ''object'';
       metadata \<leftarrow> get_prop subscription ''metadata'';
       orgId \<leftarrow> get_prop metadata ''orgId'';
       plan \<leftarrow> get_prop metadata ''plan'';
       status \<leftarrow> get_prop subscription ''status'';
       Some (SubscriptionUpdated orgId plan status)
     } else if type = JStr ''customer.subscription.deleted'' then do {
       subscription \<leftarrow> get_prop data ''object'';
       metadata \<leftarrow> get_prop subscription ''metadata'';
       orgId \<leftarrow> get_prop metadata ''orgId'';
       Some (SubscriptionDeleted orgId)
     } else Some (Unhandled type)
   }"

definition received :: response where
  "received = Json 200 (JObj [(''received'', JBool True)])"

text \<open>
  The write and the console line of each case, then the acknowledgement of line 160.
  The key of the write and the substitutions of the template literal go through
  ToString: where that throws, the handler is left at once, before the write for the
  key, after it for a later substitution.
\<close>

fun apply_event :: "store \<Rightarrow> billing_event \<Rightarrow> outcome" where
  "apply_event s (CheckoutCompleted orgId p) =
     (case to_string orgId of
        None \<Rightarrow> \<lparr>subs = s, logged = [], reply = Uncaught\<rparr>
      | Some k \<Rightarrow>
          (let s' = set_prop s k \<lparr>plan = p, status = JStr ''trialing''\<rparr> in
           case to_string p of
             None \<Rightarrow> \<lparr>subs = s', logged = [], reply = Uncaught\<rparr>
           | Some pt \<Rightarrow>
               \<lparr>subs = s',
                logged = [''Checkout completed for org '' @ k @ '': trialing '' @ pt],
                reply = received\<rparr>))"
| "apply_event s (SubscriptionUpdated orgId p st) =
     (case to_string orgId of
        None \<Rightarrow> \<lparr>subs = s, logged = [], reply = Uncaught\<rparr>
      | Some k \<Rightarrow>
          (let s' = set_prop s k \<lparr>plan = p, status = st\<rparr> in
           case to_string st of
             None \<Rightarrow> \<lparr>subs = s', logged = [], reply = Uncaught\<rparr>
           | Some stt \<Rightarrow>
               \<lparr>subs = s',
                logged = [''Subscription updated for org '' @ k @ '': '' @ stt],
                reply = received\<rparr>))"
| "apply_event s (SubscriptionDeleted orgId) =
     (case to_string orgId of
        None \<Rightarrow> \<lparr>subs = s, logged = [], reply = Uncaught\<rparr>
      | Some k \<Rightarrow>
          \<lparr>subs = set_prop s k \<lparr>plan = JStr ''free'', status = JStr ''canceled''\<rparr>,
           logged = [''Subscription canceled for org '' @ k],
           reply = received\<rparr>)"
| "apply_event s (Unhandled type) =
     (case to_string type of
        None \<Rightarrow> \<lparr>subs = s, logged = [], reply = Uncaught\<rparr>
      | Some t \<Rightarrow>
          \<lparr>subs = s, logged = [''Unhandled event type '' @ t], reply = received\<rparr>)"

definition handle_event :: "store \<Rightarrow> jsval \<Rightarrow> outcome" where
  "handle_event s event =
     (case decode_event event of
        None \<Rightarrow> \<lparr>subs = s, logged = [], reply = Uncaught\<rparr>
      | Some e \<Rightarrow> apply_event s e)"

text \<open>
  The request, as far as the handler reads it, and the whole handler. The vendor's
  \<^verbatim>\<open>stripe.webhooks.constructEvent\<close> is a parameter: given the raw body, the signature
  header and the secret it returns the event (\<open>Inr\<close>) or throws an error, of which the
  handler reads the message (\<open>Inl\<close>).
\<close>

record request =
  body :: string
  stripe_signature :: "string option"

type_synonym construct_event = "string \<Rightarrow> string option \<Rightarrow> string option \<Rightarrow> string + jsval"

definition webhooks_post ::
  "construct_event \<Rightarrow> string option \<Rightarrow> store \<Rightarrow> request \<Rightarrow> outcome" where
  "webhooks_post constructEvent STRIPE_WEBHOOK_SECRET s req =
     (case constructEvent (body req) (stripe_signature req) STRIPE_WEBHOOK_SECRET of
        Inl message \<Rightarrow>
          \<lparr>subs = s,
           logged = [''Webhook signature verification failed: '' @ message],
           reply = Send 400 (''Webhook Error: '' @ message)\<rparr>
      | Inr event \<Rightarrow> handle_event s event)"

text \<open>The events of a list, handled one after the other in the order of delivery.\<close>

fun process_events :: "store \<Rightarrow> jsval list \<Rightarrow> store" where
  "process_events s [] = s"
| "process_events s (event # events) = process_events (subs (handle_event s event)) events"

section \<open>POST /api/billing/checkout\<close>

text \<open>
  The environment variables the checkout handler reads; a variable that is not set
  reads as \<^verbatim>\<open>undefined\<close>.
\<close>

record env =
  STRIPE_PRICE_PRO_MONTHLY :: "string option"
  STRIPE_PRICE_BUSINESS_MONTHLY :: "string option"
  APP_URL :: "string option"

definition env_value :: "string option \<Rightarrow> jsval" where
  "env_value v = (case v of None \<Rightarrow> JUndefined | Some x \<Rightarrow> JStr x)"

definition env_text :: "string option \<Rightarrow> string" where
  "env_text v = (case v of None \<Rightarrow> ''undefined'' | Some x \<Rightarrow> x)"

text \<open>The argument of \<^verbatim>\<open>stripe.checkout.sessions.create\<close>.\<close>

record session_params =
  mode :: string
  customer :: jsval
  payment_method_collection :: string
  price :: jsval
  quantity :: nat
  trial_period_days :: nat
  metadata_orgId :: jsval
  metadata_plan :: jsval
  success_url :: string
  cancel_url :: string

text \<open>
  The calls to the vendor, recorded in the order they are made: the description and the
  \<^verbatim>\<open>metadata.orgId\<close> of \<^verbatim>\<open>stripe.customers.create\<close>, and the argument of
  \<^verbatim>\<open>stripe.checkout.sessions.create\<close>. The vendor's two operations are parameters; \<open>None\<close>
  is a call that throws.
\<close>

datatype vendor_call =
    Customers_create string jsval
  | Sessions_create session_params

record vendor =
  customers_create :: "string \<Rightarrow> jsval \<Rightarrow> jsval option"
  sessions_create :: "session_params \<Rightarrow> jsval option"

record checkout_outcome =
  calls :: "vendor_call list"
  sent :: response

text \<open>
  \<^verbatim>\<open>getOrCreateCustomer\<close>: the customer's id, or \<open>None\<close> where the template literal, the
  vendor or the read of \<^verbatim>\<open>customer.id\<close> throws; with the calls made.
\<close>

definition getOrCreateCustomer :: "vendor \<Rightarrow> jsval \<Rightarrow> jsval option \<times> vendor_call list" where
  "getOrCreateCustomer v orgId =
     (case to_string orgId of
        None \<Rightarrow> (None, [])
      | Some org \<Rightarrow>
          (let description = ''Customer for org '' @ org in
           (customers_create v description orgId \<bind> (\<lambda>customer. get_prop customer ''id''),
            [Customers_create description orgId])))"

definition internal_server_error :: response where
  "internal_server_error = Json 500 (JObj [(''error'', JStr ''Internal server error'')])"

definition checkout_post :: "env \<Rightarrow> vendor \<Rightarrow> jsval \<Rightarrow> checkout_outcome" where
  "checkout_post e v req_body =
     (case do {
        plan \<leftarrow> get_prop req_body ''plan'';
        orgId \<leftarrow> get_prop req_body ''orgId'';
        Some
          (if \<not> truthy plan \<or> \<not> truthy orgId then
             \<lparr>calls = [],
              sent = Json 400 (JObj [(''error'', JStr ''Missing plan or orgId'')])\<rparr>
           else
             let priceId = (if plan = JStr ''business''
                            then env_value (STRIPE_PRICE_BUSINESS_MONTHLY e)
                            else env_value (STRIPE_PRICE_PRO_MONTHLY e))
             in case getOrCreateCustomer v orgId of
               (None, made) \<Rightarrow> \<lparr>calls = made, sent = internal_server_error\<rparr>
             | (Some customerId, made) \<Rightarrow>
                 (let params =
                    \<lparr>mode = ''subscription'', customer = customerId,
                     payment_method_collection = ''always'', price = priceId,
                     quantity = 1, trial_period_days = 14,
                     metadata_orgId = orgId, metadata_plan = plan,
                     success_url = env_text (APP_URL e)
                       @ ''/billing/success?session_id={CHECKOUT_SESSION_ID}'',
                     cancel_url = env_text (APP_URL e) @ ''/pricing?canceled=1''\<rparr>
                  in case sessions_create v params \<bind> (\<lambda>session. get_prop session ''url'') of
                    None \<Rightarrow>
                      \<lparr>calls = made @ [Sessions_create params],
                       sent = internal_server_error\<rparr>
                  | Some url \<Rightarrow>
                      \<lparr>calls = made @ [Sessions_create params],
                       sent = Json 200 (JObj [(''url'', url)])\<rparr>))
      } of
        None \<Rightarrow> \<lparr>calls = [], sent = Uncaught\<rparr>
      | Some r \<Rightarrow> r)"

section \<open>The projection of an event, and the latest event of an organisation\<close>

text \<open>
  The record that an event stands for, in the words of the specification: a completed
  checkout is a trial of its plan, an update carries plan and status, a deletion is the
  canceled free plan, and any other kind of event carries no record.
\<close>

fun projection :: "billing_event \<Rightarrow> (jsval \<times> subscription_record) option" where
  "projection (CheckoutCompleted orgId p) =
     Some (orgId, \<lparr>plan = p, status = JStr ''trialing''\<rparr>)"
| "projection (SubscriptionUpdated orgId p st) = Some (orgId, \<lparr>plan = p, status = st\<rparr>)"
| "projection (SubscriptionDeleted orgId) =
     Some (orgId, \<lparr>plan = JStr ''free'', status = JStr ''canceled''\<rparr>)"
| "projection (Unhandled type) = None"

text \<open>
  The organisation that a delivered event mentions, as the key it has in the
  subscriptions object, with the event's record. An event whose reads throw, or whose
  organisation has no key, mentions none.
\<close>

definition event_projection :: "jsval \<Rightarrow> (string \<times> subscription_record) option" where
  "event_projection event = do {
     e \<leftarrow> decode_event event;
     w \<leftarrow> projection e;
     k \<leftarrow> to_string (fst w);
     Some (k, snd w)
   }"

text \<open>
  The record of the last event, in the order of delivery, that mentions the
  organisation \<open>k\<close>.
\<close>

fun latest :: "string \<Rightarrow> jsval list \<Rightarrow> subscription_record option" where
  "latest k [] = None"
| "latest k (event # events) =
     (case latest k events of
        Some r \<Rightarrow> Some r
      | None \<Rightarrow>
          (case event_projection event of
             None \<Rightarrow> None
           | Some w \<Rightarrow> if fst w = k then Some (snd w) else None))"

text \<open>
  The record \<open>r\<close> has been assigned to the key \<open>k\<close>: it is the own property \<open>k\<close>, or
  \<open>k\<close> is \<^verbatim>\<open>__proto__\<close> and \<open>r\<close> is the prototype.
\<close>

definition written :: "store \<Rightarrow> string \<Rightarrow> subscription_record \<Rightarrow> bool" where
  "written s k r =
     (case props s k of
        Some r' \<Rightarrow> r' = r
      | None \<Rightarrow> k = ''__proto__'' \<and> proto s = Some r)"

section \<open>Example requests\<close>

definition session_object :: "jsval \<Rightarrow> jsval \<Rightarrow> jsval" where
  "session_object subscription metadata =
     JObj [(''id'', JStr ''cs_test_1''), (''subscription'', subscription),
           (''metadata'', metadata)]"

definition checkout_event :: "jsval \<Rightarrow> jsval" where
  "checkout_event session =
     JObj [(''type'', JStr ''checkout.session.completed''),
           (''data'', JObj [(''object'', session)])]"

definition subscription_event :: "string \<Rightarrow> string \<Rightarrow> jsval \<Rightarrow> jsval" where
  "subscription_event type st metadata =
     JObj [(''type'', JStr type),
           (''data'', JObj [(''object'',
              JObj [(''id'', JStr ''sub_1''), (''status'', JStr st),
                    (''metadata'', metadata)])])]"

definition acme_pro :: jsval where
  "acme_pro = JObj [(''orgId'', JStr ''acme''), (''plan'', JStr ''pro'')]"

definition scenario_a :: jsval where
  "scenario_a = checkout_event (session_object (JStr ''sub_1'') acme_pro)"

definition scenario_b :: jsval where
  "scenario_b = subscription_event ''customer.subscription.updated'' ''active'' acme_pro"

definition scenario_c :: jsval where
  "scenario_c = subscription_event ''customer.subscription.deleted'' ''canceled'' acme_pro"

definition checkout_without_subscription :: jsval where
  "checkout_without_subscription = checkout_event (session_object JNull acme_pro)"

definition checkout_for_proto :: jsval where
  "checkout_for_proto =
     checkout_event
       (session_object (JStr ''sub_1'')
          (JObj [(''orgId'', JStr ''__proto__''), (''plan'', JStr ''pro'')]))"

definition invoice_paid :: jsval where
  "invoice_paid = JObj [(''type'', JStr ''invoice.paid''), (''data'', JObj [])]"

definition accept_event :: "jsval \<Rightarrow> construct_event" where
  "accept_event event payload sig secret = Inr event"

definition reject_event :: construct_event where
  "reject_event payload sig secret =
     Inl ''No signatures found matching the expected signature for payload.''"

definition signed_request :: request where
  "signed_request = \<lparr>body = ''{}'', stripe_signature = Some ''t=1,v1=00''\<rparr>"

definition example_env :: env where
  "example_env =
     \<lparr>STRIPE_PRICE_PRO_MONTHLY = Some ''price_pro'',
      STRIPE_PRICE_BUSINESS_MONTHLY = Some ''price_business'',
      APP_URL = Some ''https://app.example''\<rparr>"

definition example_vendor :: vendor where
  "example_vendor =
     \<lparr>customers_create = (\<lambda>description orgId. Some (JObj [(''id'', JStr ''cus_1'')])),
      sessions_create = (\<lambda>params. Some (JObj [(''url'', JStr ''https://checkout.example/1'')]))\<rparr>"

definition checkout_request :: "jsval \<Rightarrow> jsval" where
  "checkout_request p = JObj [(''plan'', p), (''orgId'', JStr ''acme'')]"

section \<open>What an event does to the subscriptions object\<close>

lemma subs_apply_event:
  "subs (apply_event s e) =
     (case projection e of
        None \<Rightarrow> s
      | Some w \<Rightarrow>
          (case to_string (fst w) of None \<Rightarrow> s | Some k \<Rightarrow> set_prop s k (snd w)))"
  by (cases e) (simp_all add: Let_def split: option.splits)

lemma subs_handle_event:
  "subs (handle_event s event) =
     (case event_projection event of None \<Rightarrow> s | Some w \<Rightarrow> set_prop s (fst w) (snd w))"
  by (simp add: handle_event_def event_projection_def subs_apply_event split: option.splits)

lemma written_set_prop_same: "written (set_prop s k r) k r"
  by (auto simp add: written_def set_prop_def)

lemma written_set_prop_other:
  "k' \<noteq> k \<Longrightarrow> written s k r \<Longrightarrow> written (set_prop s k' r') k r"
  by (auto simp add: written_def set_prop_def split: option.splits)

lemma written_store_get: "written s k r \<Longrightarrow> store_get s k = Record r"
  by (auto simp add: written_def store_get_def split: option.splits)

lemma store_get_set_prop: "store_get (set_prop s k r) k = Record r"
  by (rule written_store_get) (rule written_set_prop_same)

lemma written_process_events:
  "latest k events = None \<Longrightarrow> written s k r \<Longrightarrow> written (process_events s events) k r"
proof (induction events arbitrary: s)
  case Nil
  then show ?case by simp
next
  case (Cons event events)
  from Cons.prems(1) have later: "latest k events = None"
    by (simp split: option.splits)
  from Cons.prems(1) later
  have here: "event_projection event = None
              \<or> (\<exists>w. event_projection event = Some w \<and> fst w \<noteq> k)"
    by (auto split: option.splits if_splits)
  have "written (subs (handle_event s event)) k r"
    using here Cons.prems(2) by (auto simp add: subs_handle_event written_set_prop_other)
  then show ?case
    using Cons.IH [OF later] by simp
qed

lemma set_prop_twice: "set_prop (set_prop s k r) k r = set_prop s k r"
  by (auto simp add: set_prop_def)

lemma subs_webhooks_post:
  "subs (webhooks_post constructEvent secret s req) =
     (case constructEvent (body req) (stripe_signature req) secret of
        Inl message \<Rightarrow> s
      | Inr event \<Rightarrow> subs (handle_event s event))"
  by (simp add: webhooks_post_def split: sum.splits)

lemma event_projection_decoded:
  "decode_event event = Some e \<Longrightarrow> projection e = Some (orgId, r) \<Longrightarrow>
   to_string orgId = Some k \<Longrightarrow> event_projection event = Some (k, r)"
  by (simp add: event_projection_def)

lemma has_property_set_prop_same: "has_property (set_prop s k r) k"
  by (auto simp add: has_property_def set_prop_def inherited_names_def
      object_prototype_names_def)

lemma has_property_set_prop:
  "has_property s k \<Longrightarrow> has_property (set_prop s k' r) k"
  by (auto simp add: has_property_def set_prop_def inherited_names_def
      split: option.splits)

lemma has_property_handle_event:
  "has_property s k \<Longrightarrow> has_property (subs (handle_event s event)) k"
  by (simp add: subs_handle_event has_property_set_prop split: option.splits)

lemma has_property_process_events:
  "has_property s k \<Longrightarrow> has_property (process_events s events) k"
  by (induction events arbitrary: s) (simp_all add: has_property_handle_event)

section \<open>The stored record is that of the latest event\<close>

text \<open>
  C2. For every organisation and every finite sequence of events handled by the webhook
  handler, from any store: where some event of the sequence mentions the organisation,
  the record read from the subscriptions object under the organisation's key after the
  sequence is the projection of the last such event in the order of delivery.
\<close>

theorem latest_event_stored:
  "latest k events = Some r \<Longrightarrow> store_get (process_events s events) k = Record r"
proof (induction events arbitrary: s)
  case Nil
  then show ?case by simp
next
  case (Cons event events)
  show ?case
  proof (cases "latest k events")
    case (Some r')
    with Cons.prems have "r' = r" by simp
    with Some Cons.IH show ?thesis by simp
  next
    case None
    with Cons.prems have "event_projection event = Some (k, r)"
      by (auto split: option.splits if_splits)
    then have "written (subs (handle_event s event)) k r"
      by (simp add: subs_handle_event written_set_prop_same)
    then have "written (process_events (subs (handle_event s event)) events) k r"
      using None by (rule written_process_events [rotated])
    then show ?thesis
      by (simp add: written_store_get)
  qed
qed

theorem latest_event_stored_witness:
  "latest ''acme'' [scenario_a, scenario_b, invoice_paid, scenario_c]
     = Some \<lparr>plan = JStr ''free'', status = JStr ''canceled''\<rparr>
   \<and> store_get (process_events subscriptions [scenario_a, scenario_b, invoice_paid, scenario_c])
         ''acme''
     = Record \<lparr>plan = JStr ''free'', status = JStr ''canceled''\<rparr>"
proof -
  have h: "latest ''acme'' [scenario_a, scenario_b, invoice_paid, scenario_c]
             = Some \<lparr>plan = JStr ''free'', status = JStr ''canceled''\<rparr>"
    by (simp add: event_projection_def decode_event_def scenario_a_def scenario_b_def
        scenario_c_def invoice_paid_def checkout_event_def session_object_def
        subscription_event_def acme_pro_def)
  from latest_event_stored [OF h, of subscriptions] h show ?thesis
    by simp
qed

section \<open>Re-delivery of an event\<close>

text \<open>
  C3. For every event variant (a completed checkout, an update, a deletion, an
  unhandled kind) and every store, applying the event to the result of applying it
  leaves the store that applying it once leaves. The same holds for the whole webhook
  handler and every request, verified or not.
\<close>

theorem apply_idempotent:
  "subs (apply_event (subs (apply_event s e)) e) = subs (apply_event s e)
   \<and> subs (webhooks_post constructEvent secret
             (subs (webhooks_post constructEvent secret s req)) req)
     = subs (webhooks_post constructEvent secret s req)"
proof
  show "subs (apply_event (subs (apply_event s e)) e) = subs (apply_event s e)"
    by (simp add: subs_apply_event set_prop_twice split: option.splits)
  show "subs (webhooks_post constructEvent secret
             (subs (webhooks_post constructEvent secret s req)) req)
     = subs (webhooks_post constructEvent secret s req)"
    by (simp add: subs_webhooks_post subs_handle_event set_prop_twice
        split: sum.splits option.splits)
qed

theorem apply_idempotent_witness:
  "subs (apply_event (subs (apply_event subscriptions (SubscriptionDeleted (JStr ''acme''))))
           (SubscriptionDeleted (JStr ''acme'')))
     = subs (apply_event subscriptions (SubscriptionDeleted (JStr ''acme'')))
   \<and> subs (webhooks_post (accept_event scenario_a) None
             (subs (webhooks_post (accept_event scenario_a) None subscriptions signed_request))
             signed_request)
     = subs (webhooks_post (accept_event scenario_a) None subscriptions signed_request)"
  by (rule apply_idempotent)

section \<open>The three handled kinds of event\<close>

text \<open>
  C4. For every verified event that the handler reads as a completed checkout with
  the organisation \<open>orgId\<close> and the plan \<open>p\<close>, and every prior store, the subscriptions
  object afterwards holds the record of plan \<open>p\<close> and status \<^verbatim>\<open>trialing\<close> under the
  organisation's key, whatever it held there before. Scenario A of the specification
  is the witness.
\<close>

theorem checkout_completed_writes:
  assumes "constructEvent (body req) (stripe_signature req) secret = Inr event"
    and "decode_event event = Some (CheckoutCompleted orgId p)"
    and "to_string orgId = Some k"
  shows "store_get (subs (webhooks_post constructEvent secret s req)) k
           = Record \<lparr>plan = p, status = JStr ''trialing''\<rparr>"
proof -
  have "event_projection event = Some (k, \<lparr>plan = p, status = JStr ''trialing''\<rparr>)"
    using assms(2,3) by (simp add: event_projection_decoded)
  then show ?thesis
    using assms(1) by (simp add: subs_webhooks_post subs_handle_event store_get_set_prop)
qed

theorem checkout_completed_writes_witness:
  "accept_event scenario_a (body signed_request) (stripe_signature signed_request) None
     = Inr scenario_a
   \<and> decode_event scenario_a = Some (CheckoutCompleted (JStr ''acme'') (JStr ''pro''))
   \<and> to_string (JStr ''acme'') = Some ''acme''
   \<and> store_get (subs (webhooks_post (accept_event scenario_a) None subscriptions
                        signed_request)) ''acme''
       = Record \<lparr>plan = JStr ''pro'', status = JStr ''trialing''\<rparr>"
proof -
  have v: "accept_event scenario_a (body signed_request) (stripe_signature signed_request) None
             = Inr scenario_a"
    by (simp add: accept_event_def)
  have d: "decode_event scenario_a = Some (CheckoutCompleted (JStr ''acme'') (JStr ''pro''))"
    by (simp add: decode_event_def scenario_a_def checkout_event_def session_object_def acme_pro_def)
  have k: "to_string (JStr ''acme'') = Some ''acme''"
    by simp
  from checkout_completed_writes
         [where constructEvent = "accept_event scenario_a" and req = signed_request
            and secret = None and s = subscriptions, OF v d k] v d k
  show ?thesis
    by simp
qed

text \<open>
  C5. For every verified event that the handler reads as an update of a subscription
  with the organisation \<open>orgId\<close>, the plan \<open>p\<close> and the status \<open>st\<close>, and every prior
  store, the subscriptions object afterwards holds the record of plan \<open>p\<close> and status
  \<open>st\<close> under the organisation's key. Scenario B of the specification, the update after
  the completed checkout, is the witness.
\<close>

theorem subscription_updated_writes:
  assumes "constructEvent (body req) (stripe_signature req) secret = Inr event"
    and "decode_event event = Some (SubscriptionUpdated orgId p st)"
    and "to_string orgId = Some k"
  shows "store_get (subs (webhooks_post constructEvent secret s req)) k
           = Record \<lparr>plan = p, status = st\<rparr>"
proof -
  have "event_projection event = Some (k, \<lparr>plan = p, status = st\<rparr>)"
    using assms(2,3) by (simp add: event_projection_decoded)
  then show ?thesis
    using assms(1) by (simp add: subs_webhooks_post subs_handle_event store_get_set_prop)
qed

theorem subscription_updated_writes_witness:
  "accept_event scenario_b (body signed_request) (stripe_signature signed_request) None
     = Inr scenario_b
   \<and> decode_event scenario_b
       = Some (SubscriptionUpdated (JStr ''acme'') (JStr ''pro'') (JStr ''active''))
   \<and> to_string (JStr ''acme'') = Some ''acme''
   \<and> store_get (subs (webhooks_post (accept_event scenario_b) None
                        (subs (webhooks_post (accept_event scenario_a) None subscriptions
                                 signed_request))
                        signed_request)) ''acme''
       = Record \<lparr>plan = JStr ''pro'', status = JStr ''active''\<rparr>"
proof -
  have v: "accept_event scenario_b (body signed_request) (stripe_signature signed_request) None
             = Inr scenario_b"
    by (simp add: accept_event_def)
  have d: "decode_event scenario_b
             = Some (SubscriptionUpdated (JStr ''acme'') (JStr ''pro'') (JStr ''active''))"
    by (simp add: decode_event_def scenario_b_def subscription_event_def acme_pro_def)
  have k: "to_string (JStr ''acme'') = Some ''acme''"
    by simp
  from subscription_updated_writes
         [where constructEvent = "accept_event scenario_b" and req = signed_request
            and secret = None, OF v d k] v d k
  show ?thesis
    by simp
qed

text \<open>
  C6. For every verified event that the handler reads as the deletion of a
  subscription of the organisation \<open>orgId\<close>, and every prior store, the subscriptions
  object afterwards holds the record of plan \<^verbatim>\<open>free\<close> and status \<^verbatim>\<open>canceled\<close> under
  the organisation's key; and the key is a property of the subscriptions object then
  and after any further events, since no event removes a property. Scenario C of the
  specification is the witness.
\<close>

theorem subscription_deleted_writes:
  assumes "constructEvent (body req) (stripe_signature req) secret = Inr event"
    and "decode_event event = Some (SubscriptionDeleted orgId)"
    and "to_string orgId = Some k"
  shows "store_get (subs (webhooks_post constructEvent secret s req)) k
           = Record \<lparr>plan = JStr ''free'', status = JStr ''canceled''\<rparr>
         \<and> has_property
             (process_events (subs (webhooks_post constructEvent secret s req)) events) k"
proof -
  have "event_projection event = Some (k, \<lparr>plan = JStr ''free'', status = JStr ''canceled''\<rparr>)"
    using assms(2,3) by (simp add: event_projection_decoded)
  then have after: "subs (webhooks_post constructEvent secret s req)
                      = set_prop s k \<lparr>plan = JStr ''free'', status = JStr ''canceled''\<rparr>"
    using assms(1) by (simp add: subs_webhooks_post subs_handle_event)
  show ?thesis
    by (simp add: after store_get_set_prop has_property_process_events
        has_property_set_prop_same)
qed

theorem subscription_deleted_writes_witness:
  "accept_event scenario_c (body signed_request) (stripe_signature signed_request) None
     = Inr scenario_c
   \<and> decode_event scenario_c = Some (SubscriptionDeleted (JStr ''acme''))
   \<and> to_string (JStr ''acme'') = Some ''acme''
   \<and> store_get (subs (webhooks_post (accept_event scenario_c) None
                        (process_events subscriptions [scenario_a, scenario_b])
                        signed_request)) ''acme''
       = Record \<lparr>plan = JStr ''free'', status = JStr ''canceled''\<rparr>
   \<and> has_property
       (process_events
          (subs (webhooks_post (accept_event scenario_c) None
                   (process_events subscriptions [scenario_a, scenario_b]) signed_request))
          [invoice_paid, scenario_c]) ''acme''"
proof -
  have v: "accept_event scenario_c (body signed_request) (stripe_signature signed_request) None
             = Inr scenario_c"
    by (simp add: accept_event_def)
  have d: "decode_event scenario_c = Some (SubscriptionDeleted (JStr ''acme''))"
    by (simp add: decode_event_def scenario_c_def subscription_event_def acme_pro_def)
  have k: "to_string (JStr ''acme'') = Some ''acme''"
    by simp
  from subscription_deleted_writes
         [where constructEvent = "accept_event scenario_c" and req = signed_request
            and secret = None and s = "process_events subscriptions [scenario_a, scenario_b]"
            and events = "[invoice_paid, scenario_c]", OF v d k] v d k
  show ?thesis
    by simp
qed

section \<open>Events that are not handled, and requests that are not verified\<close>

text \<open>
  C7. For every verified event whose type is none of
  \<^verbatim>\<open>checkout.session.completed\<close>, \<^verbatim>\<open>customer.subscription.updated\<close> and
  \<^verbatim>\<open>customer.subscription.deleted\<close>, the handler leaves the subscriptions object as it
  was, writes one line to the console and acknowledges receipt.
\<close>

theorem unhandled_event_acknowledged:
  assumes "constructEvent (body req) (stripe_signature req) secret = Inr event"
    and "get_prop event ''type'' = Some (JStr t)"
    and "t \<noteq> ''checkout.session.completed''"
    and "t \<noteq> ''customer.subscription.updated''"
    and "t \<noteq> ''customer.subscription.deleted''"
  shows "webhooks_post constructEvent secret s req
           = \<lparr>subs = s, logged = [''Unhandled event type '' @ t], reply = received\<rparr>"
proof -
  obtain ps where "event = JObj ps"
    using assms(2) by (cases event) simp_all
  then have "get_prop event ''data'' \<noteq> None"
    by simp
  then have "decode_event event = Some (Unhandled (JStr t))"
    using assms(2-5) by (auto simp add: decode_event_def)
  then show ?thesis
    using assms(1) by (simp add: webhooks_post_def handle_event_def)
qed

theorem unhandled_event_acknowledged_witness:
  "accept_event invoice_paid (body signed_request) (stripe_signature signed_request) None
     = Inr invoice_paid
   \<and> get_prop invoice_paid ''type'' = Some (JStr ''invoice.paid'')
   \<and> ''invoice.paid'' \<noteq> ''checkout.session.completed''
   \<and> ''invoice.paid'' \<noteq> ''customer.subscription.updated''
   \<and> ''invoice.paid'' \<noteq> ''customer.subscription.deleted''
   \<and> webhooks_post (accept_event invoice_paid) None
       (process_events subscriptions [scenario_a]) signed_request
     = \<lparr>subs = process_events subscriptions [scenario_a],
        logged = [''Unhandled event type invoice.paid''], reply = received\<rparr>"
proof -
  have v: "accept_event invoice_paid (body signed_request) (stripe_signature signed_request)
             None = Inr invoice_paid"
    by (simp add: accept_event_def)
  have t: "get_prop invoice_paid ''type'' = Some (JStr ''invoice.paid'')"
    by (simp add: invoice_paid_def)
  have n: "''invoice.paid'' \<noteq> ''checkout.session.completed''"
    "''invoice.paid'' \<noteq> ''customer.subscription.updated''"
    "''invoice.paid'' \<noteq> ''customer.subscription.deleted''"
    by simp_all
  from unhandled_event_acknowledged
         [where constructEvent = "accept_event invoice_paid" and req = signed_request
            and secret = None and s = "process_events subscriptions [scenario_a]",
          OF v t n] v t n
  show ?thesis
    by simp
qed

text \<open>
  C8. Where the verification of the signature fails, the handler leaves the
  subscriptions object as it was and replies with status 400 and the error's message,
  which is not the acknowledgement; and whenever the handler acknowledges receipt, the
  verification has returned an event.
\<close>

theorem signature_failure_rejected:
  "(constructEvent (body req) (stripe_signature req) secret = Inl message \<longrightarrow>
      webhooks_post constructEvent secret s req
        = \<lparr>subs = s,
           logged = [''Webhook signature verification failed: '' @ message],
           reply = Send 400 (''Webhook Error: '' @ message)\<rparr>
      \<and> reply (webhooks_post constructEvent secret s req) \<noteq> received)
   \<and> (reply (webhooks_post constructEvent secret s req) = received \<longrightarrow>
        (\<exists>event. constructEvent (body req) (stripe_signature req) secret = Inr event))"
  by (cases "constructEvent (body req) (stripe_signature req) secret")
    (simp_all add: webhooks_post_def received_def)

theorem signature_failure_rejected_witness:
  "reject_event (body signed_request) (stripe_signature signed_request) (Some ''whsec_1'')
     = Inl ''No signatures found matching the expected signature for payload.''
   \<and> webhooks_post reject_event (Some ''whsec_1'') (process_events subscriptions [scenario_a])
       signed_request
     = \<lparr>subs = process_events subscriptions [scenario_a],
        logged = [''Webhook signature verification failed: ''
                  @ ''No signatures found matching the expected signature for payload.''],
        reply = Send 400 (''Webhook Error: ''
                  @ ''No signatures found matching the expected signature for payload.'')\<rparr>
   \<and> reply (webhooks_post (accept_event invoice_paid) (Some ''whsec_1'') subscriptions
              signed_request) = received
   \<and> (\<exists>event. accept_event invoice_paid (body signed_request)
                 (stripe_signature signed_request) (Some ''whsec_1'') = Inr event)"
proof -
  have r: "reject_event (body signed_request) (stripe_signature signed_request)
             (Some ''whsec_1'')
           = Inl ''No signatures found matching the expected signature for payload.''"
    by (simp add: reject_event_def)
  have a: "reply (webhooks_post (accept_event invoice_paid) (Some ''whsec_1'') subscriptions
              signed_request) = received"
    by (simp add: webhooks_post_def accept_event_def handle_event_def decode_event_def
        invoice_paid_def)
  from signature_failure_rejected
         [where constructEvent = reject_event and req = signed_request
            and secret = "Some ''whsec_1''" and s = "process_events subscriptions [scenario_a]"
            and message = "''No signatures found matching the expected signature for payload.''"]
       signature_failure_rejected
         [where constructEvent = "accept_event invoice_paid" and req = signed_request
            and secret = "Some ''whsec_1''" and s = subscriptions]
       r a
  show ?thesis
    by simp
qed

section \<open>The subscriptions object is not a map of organisations\<close>

text \<open>
  C9. The claim is that a lookup returns none for every organisation that no event
  has mentioned, and a populated record after the first completed checkout of an
  organisation. The plain object of line 119 does not keep it. A completed checkout
  for the organisation \<^verbatim>\<open>__proto__\<close>, with the plan \<^verbatim>\<open>pro\<close>, is acknowledged, yet it
  creates no property: the record becomes the prototype of the subscriptions object.
  Afterwards the object has no own property under the organisation's key, and the
  names \<^verbatim>\<open>plan\<close> and \<^verbatim>\<open>status\<close>, which no event has mentioned, read as the values
  of that record.
\<close>

theorem checkout_for_proto_not_stored:
  "decode_event checkout_for_proto
     = Some (CheckoutCompleted (JStr ''__proto__'') (JStr ''pro''))
   \<and> handle_event subscriptions checkout_for_proto
       = \<lparr>subs = subscriptions\<lparr>proto := Some \<lparr>plan = JStr ''pro'', status = JStr ''trialing''\<rparr>\<rparr>,
          logged = [''Checkout completed for org __proto__: trialing pro''],
          reply = received\<rparr>
   \<and> props (subs (handle_event subscriptions checkout_for_proto)) ''__proto__'' = None
   \<and> latest ''plan'' [checkout_for_proto] = None
   \<and> store_get (process_events subscriptions [checkout_for_proto]) ''plan''
       = Inherited_value (JStr ''pro'')
   \<and> latest ''status'' [checkout_for_proto] = None
   \<and> store_get (process_events subscriptions [checkout_for_proto]) ''status''
       = Inherited_value (JStr ''trialing'')"
proof -
  have d: "decode_event checkout_for_proto
             = Some (CheckoutCompleted (JStr ''__proto__'') (JStr ''pro''))"
    by (simp add: decode_event_def checkout_for_proto_def checkout_event_def
        session_object_def)
  have h: "handle_event subscriptions checkout_for_proto
             = \<lparr>subs = subscriptions
                        \<lparr>proto := Some \<lparr>plan = JStr ''pro'', status = JStr ''trialing''\<rparr>\<rparr>,
                logged = [''Checkout completed for org __proto__: trialing pro''],
                reply = received\<rparr>"
    by (simp add: handle_event_def d set_prop_def subscriptions_def)
  have e: "event_projection checkout_for_proto
             = Some (''__proto__'', \<lparr>plan = JStr ''pro'', status = JStr ''trialing''\<rparr>)"
    by (simp add: event_projection_def d)
  have g: "store_get (subscriptions\<lparr>proto := Some \<lparr>plan = JStr ''pro'',
                                                 status = JStr ''trialing''\<rparr>\<rparr>) ''plan''
             = Inherited_value (JStr ''pro'')"
    "store_get (subscriptions\<lparr>proto := Some \<lparr>plan = JStr ''pro'',
                                              status = JStr ''trialing''\<rparr>\<rparr>) ''status''
       = Inherited_value (JStr ''trialing'')"
    by (simp_all add: store_get_def subscriptions_def)
  have n: "props subscriptions ''__proto__'' = None"
    by (simp add: subscriptions_def)
  show ?thesis
    by (simp add: d h e g n)
qed

section \<open>A completed checkout without a subscription\<close>

text \<open>
  C10. For every \<^verbatim>\<open>checkout.session.completed\<close> event whose session has a falsy
  \<^verbatim>\<open>subscription\<close>, the handler takes \<^verbatim>\<open>orgId\<close> and \<^verbatim>\<open>plan\<close> from the session
  itself, whatever the session's metadata holds. For the session whose subscription is
  \<^verbatim>\<open>null\<close> and whose metadata names the organisation \<^verbatim>\<open>acme\<close> and the plan
  \<^verbatim>\<open>pro\<close>, the handler therefore stores a record with an undefined plan under the key
  \<^verbatim>\<open>undefined\<close>, and nothing under \<^verbatim>\<open>acme\<close>.
\<close>

theorem checkout_without_subscription_reads_session:
  "(get_prop event ''type'' = Some (JStr ''checkout.session.completed'') \<longrightarrow>
    get_prop event ''data'' = Some data \<longrightarrow>
    get_prop data ''object'' = Some session \<longrightarrow>
    get_prop session ''subscription'' = Some subscription \<longrightarrow>
    \<not> truthy subscription \<longrightarrow>
    get_prop session ''orgId'' = Some orgId \<longrightarrow>
    get_prop session ''plan'' = Some p \<longrightarrow>
    decode_event event = Some (CheckoutCompleted orgId p))
   \<and> get_prop acme_pro ''orgId'' = Some (JStr ''acme'')
   \<and> get_prop acme_pro ''plan'' = Some (JStr ''pro'')
   \<and> handle_event subscriptions (checkout_event (session_object JNull acme_pro))
       = \<lparr>subs = set_prop subscriptions ''undefined''
                   \<lparr>plan = JUndefined, status = JStr ''trialing''\<rparr>,
          logged = [''Checkout completed for org undefined: trialing undefined''],
          reply = received\<rparr>
   \<and> store_get (subs (handle_event subscriptions (checkout_event (session_object JNull acme_pro))))
        ''undefined''
       = Record \<lparr>plan = JUndefined, status = JStr ''trialing''\<rparr>
   \<and> store_get (subs (handle_event subscriptions (checkout_event (session_object JNull acme_pro)))) ''acme''
       = Undefined"
proof (intro conjI impI)
  assume "get_prop event ''type'' = Some (JStr ''checkout.session.completed'')"
    "get_prop event ''data'' = Some data"
    "get_prop data ''object'' = Some session"
    "get_prop session ''subscription'' = Some subscription"
    "\<not> truthy subscription"
    "get_prop session ''orgId'' = Some orgId"
    "get_prop session ''plan'' = Some p"
  then show "decode_event event = Some (CheckoutCompleted orgId p)"
    by (simp add: decode_event_def)
next
  have h: "handle_event subscriptions (checkout_event (session_object JNull acme_pro))
       = \<lparr>subs = set_prop subscriptions ''undefined''
                   \<lparr>plan = JUndefined, status = JStr ''trialing''\<rparr>,
          logged = [''Checkout completed for org undefined: trialing undefined''],
          reply = received\<rparr>"
    by (simp add: handle_event_def decode_event_def checkout_event_def session_object_def acme_pro_def)
  show "handle_event subscriptions (checkout_event (session_object JNull acme_pro))
       = \<lparr>subs = set_prop subscriptions ''undefined''
                   \<lparr>plan = JUndefined, status = JStr ''trialing''\<rparr>,
          logged = [''Checkout completed for org undefined: trialing undefined''],
          reply = received\<rparr>"
    by (rule h)
  show "store_get (subs (handle_event subscriptions (checkout_event (session_object JNull acme_pro))))
        ''undefined''
       = Record \<lparr>plan = JUndefined, status = JStr ''trialing''\<rparr>"
    by (simp add: h store_get_set_prop)
  show "store_get (subs (handle_event subscriptions (checkout_event (session_object JNull acme_pro)))) ''acme''
       = Undefined"
    unfolding h
    by (simp add: store_get_def set_prop_def subscriptions_def object_prototype_get_def
        object_prototype_names_def)
qed (simp_all add: acme_pro_def)

theorem checkout_without_subscription_reads_session_witness:
  "get_prop checkout_without_subscription ''type'' = Some (JStr ''checkout.session.completed'')
   \<and> get_prop checkout_without_subscription ''data''
       = Some (JObj [(''object'', session_object JNull acme_pro)])
   \<and> get_prop (JObj [(''object'', session_object JNull acme_pro)]) ''object''
       = Some (session_object JNull acme_pro)
   \<and> get_prop (session_object JNull acme_pro) ''subscription'' = Some JNull
   \<and> \<not> truthy JNull
   \<and> get_prop (session_object JNull acme_pro) ''orgId'' = Some JUndefined
   \<and> get_prop (session_object JNull acme_pro) ''plan'' = Some JUndefined
   \<and> decode_event checkout_without_subscription
       = Some (CheckoutCompleted JUndefined JUndefined)"
proof -
  have t: "get_prop checkout_without_subscription ''type''
             = Some (JStr ''checkout.session.completed'')"
    and d: "get_prop checkout_without_subscription ''data''
             = Some (JObj [(''object'', session_object JNull acme_pro)])"
    by (simp_all add: checkout_without_subscription_def checkout_event_def)
  have ob: "get_prop (JObj [(''object'', session_object JNull acme_pro)]) ''object''
             = Some (session_object JNull acme_pro)"
    by simp
  have r: "get_prop (session_object JNull acme_pro) ''subscription'' = Some JNull"
    "get_prop (session_object JNull acme_pro) ''orgId'' = Some JUndefined"
    "get_prop (session_object JNull acme_pro) ''plan'' = Some JUndefined"
    by (simp_all add: session_object_def)
  from checkout_without_subscription_reads_session
         [of checkout_without_subscription "JObj [(''object'', session_object JNull acme_pro)]"
            "session_object JNull acme_pro" JNull JUndefined JUndefined]
       t d ob r
  show ?thesis
    by simp
qed

section \<open>The price of a plan\<close>

text \<open>
  C1. The claim that a plan other than \<^verbatim>\<open>pro\<close> and \<^verbatim>\<open>business\<close> fails without a call
  to the vendor does not hold: for the plan \<^verbatim>\<open>enterprise\<close> the handler creates a
  customer and a checkout session at the price of the plan \<^verbatim>\<open>pro\<close>, and replies with
  the session's URL.
\<close>

theorem enterprise_checkout_proceeds:
  "checkout_post example_env example_vendor (checkout_request (JStr ''enterprise''))
     = \<lparr>calls =
          [Customers_create ''Customer for org acme'' (JStr ''acme''),
           Sessions_create
             \<lparr>mode = ''subscription'', customer = JStr ''cus_1'',
              payment_method_collection = ''always'', price = JStr ''price_pro'',
              quantity = 1, trial_period_days = 14,
              metadata_orgId = JStr ''acme'', metadata_plan = JStr ''enterprise'',
              success_url =
                ''https://app.example/billing/success?session_id={CHECKOUT_SESSION_ID}'',
              cancel_url = ''https://app.example/pricing?canceled=1''\<rparr>],
        sent = Json 200 (JObj [(''url'', JStr ''https://checkout.example/1'')])\<rparr>"
  by (simp add: checkout_post_def checkout_request_def example_env_def example_vendor_def
      getOrCreateCustomer_def env_value_def env_text_def)

text \<open>
  C1, as amended. A checkout request whose plan, or organisation, is missing or falsy
  is answered with status 400 and no call to the vendor. Every other plan resolves to
  a price and proceeds to the creation of a customer and, once that has succeeded, of a
  session: \<^verbatim>\<open>business\<close> at the business price, any other plan at the price of \<^verbatim>\<open>pro\<close>.
\<close>

theorem checkout_price_resolution:
  assumes "get_prop req_body ''plan'' = Some p"
    and "get_prop req_body ''orgId'' = Some orgId"
  shows "(\<not> truthy p \<or> \<not> truthy orgId \<longrightarrow>
            checkout_post e v req_body
              = \<lparr>calls = [],
                 sent = Json 400 (JObj [(''error'', JStr ''Missing plan or orgId'')])\<rparr>)
         \<and> (truthy p \<longrightarrow> truthy orgId \<longrightarrow> to_string orgId = Some org \<longrightarrow>
            customers_create v (''Customer for org '' @ org) orgId = Some created \<longrightarrow>
            get_prop created ''id'' = Some customerId \<longrightarrow>
            calls (checkout_post e v req_body)
              = [Customers_create (''Customer for org '' @ org) orgId,
                 Sessions_create
                   \<lparr>mode = ''subscription'', customer = customerId,
                    payment_method_collection = ''always'',
                    price = (if p = JStr ''business''
                             then env_value (STRIPE_PRICE_BUSINESS_MONTHLY e)
                             else env_value (STRIPE_PRICE_PRO_MONTHLY e)),
                    quantity = 1, trial_period_days = 14,
                    metadata_orgId = orgId, metadata_plan = p,
                    success_url = env_text (APP_URL e)
                      @ ''/billing/success?session_id={CHECKOUT_SESSION_ID}'',
                    cancel_url = env_text (APP_URL e) @ ''/pricing?canceled=1''\<rparr>])"
proof (intro conjI impI)
  assume "\<not> truthy p \<or> \<not> truthy orgId"
  then show "checkout_post e v req_body
              = \<lparr>calls = [],
                 sent = Json 400 (JObj [(''error'', JStr ''Missing plan or orgId'')])\<rparr>"
    using assms by (auto simp add: checkout_post_def)
next
  assume "truthy p" "truthy orgId" "to_string orgId = Some org"
    "customers_create v (''Customer for org '' @ org) orgId = Some created"
    "get_prop created ''id'' = Some customerId"
  then show "calls (checkout_post e v req_body)
              = [Customers_create (''Customer for org '' @ org) orgId,
                 Sessions_create
                   \<lparr>mode = ''subscription'', customer = customerId,
                    payment_method_collection = ''always'',
                    price = (if p = JStr ''business''
                             then env_value (STRIPE_PRICE_BUSINESS_MONTHLY e)
                             else env_value (STRIPE_PRICE_PRO_MONTHLY e)),
                    quantity = 1, trial_period_days = 14,
                    metadata_orgId = orgId, metadata_plan = p,
                    success_url = env_text (APP_URL e)
                      @ ''/billing/success?session_id={CHECKOUT_SESSION_ID}'',
                    cancel_url = env_text (APP_URL e) @ ''/pricing?canceled=1''\<rparr>]"
    using assms
    by (simp add: checkout_post_def getOrCreateCustomer_def Let_def split: option.splits)
qed

theorem checkout_price_resolution_witness:
  "get_prop (checkout_request (JStr [])) ''plan'' = Some (JStr [])
   \<and> get_prop (checkout_request (JStr [])) ''orgId'' = Some (JStr ''acme'')
   \<and> \<not> truthy (JStr [])
   \<and> checkout_post example_env example_vendor (checkout_request (JStr []))
       = \<lparr>calls = [],
          sent = Json 400 (JObj [(''error'', JStr ''Missing plan or orgId'')])\<rparr>
   \<and> get_prop (checkout_request (JStr ''business'')) ''plan'' = Some (JStr ''business'')
   \<and> get_prop (checkout_request (JStr ''business'')) ''orgId'' = Some (JStr ''acme'')
   \<and> truthy (JStr ''business'') \<and> truthy (JStr ''acme'')
   \<and> to_string (JStr ''acme'') = Some ''acme''
   \<and> customers_create example_vendor (''Customer for org '' @ ''acme'') (JStr ''acme'')
       = Some (JObj [(''id'', JStr ''cus_1'')])
   \<and> get_prop (JObj [(''id'', JStr ''cus_1'')]) ''id'' = Some (JStr ''cus_1'')
   \<and> calls (checkout_post example_env example_vendor (checkout_request (JStr ''business'')))
       = [Customers_create ''Customer for org acme'' (JStr ''acme''),
          Sessions_create
            \<lparr>mode = ''subscription'', customer = JStr ''cus_1'',
             payment_method_collection = ''always'', price = JStr ''price_business'',
             quantity = 1, trial_period_days = 14,
             metadata_orgId = JStr ''acme'', metadata_plan = JStr ''business'',
             success_url =
               ''https://app.example/billing/success?session_id={CHECKOUT_SESSION_ID}'',
             cancel_url = ''https://app.example/pricing?canceled=1''\<rparr>]"
proof -
  have a: "get_prop (checkout_request (JStr [])) ''plan'' = Some (JStr [])"
    "get_prop (checkout_request (JStr [])) ''orgId'' = Some (JStr ''acme'')"
    by (simp_all add: checkout_request_def)
  have b: "get_prop (checkout_request (JStr ''business'')) ''plan'' = Some (JStr ''business'')"
    "get_prop (checkout_request (JStr ''business'')) ''orgId'' = Some (JStr ''acme'')"
    by (simp_all add: checkout_request_def)
  have c: "customers_create example_vendor (''Customer for org '' @ ''acme'') (JStr ''acme'')
             = Some (JObj [(''id'', JStr ''cus_1'')])"
    by (simp add: example_vendor_def)
  from checkout_price_resolution [OF a, where e = example_env and v = example_vendor]
       checkout_price_resolution
         [OF b, where e = example_env and v = example_vendor and org = "''acme''"
            and created = "JObj [(''id'', JStr ''cus_1'')]" and customerId = "JStr ''cus_1''"]
       a b c
  show ?thesis
    by (simp add: example_env_def env_value_def env_text_def)
qed

end
